theory Spec2Isabelle
  imports Complex_Main "HOL-Library.Word"
begin

unbundle bit_operations_syntax

section \<open>The virtual camera stream (stream.cpp)\<close>

text \<open>
  The theory embeds \<^verbatim>\<open>AkVCam::Stream\<close> and \<^verbatim>\<open>AkVCam::StreamPrivate\<close> of
  \<^verbatim>\<open>src/libAvKys/Plugins/VirtualCamera/src/cmio/VirtualCamera/src/stream.cpp\<close>.
  The private object is a record that every member function takes and returns. Calls that
  leave the process (the host clock, the pixel buffer allocator, the sample queue, the
  queue-altered callback) are written to an effect list in the order the code makes them.
  What the outside world answers (the absolute time, whether a pixel buffer could be
  created, whether a timer could be created) is an argument of the function that asks.

  A C++ \<^verbatim>\<open>double\<close> is modelled by an exact rational: every finite double is one, the
  rounding of the three floating point operations of the file (\<^verbatim>\<open>2. / m_fps\<close>,
  \<^verbatim>\<open>1.0 / m_fps\<close> and the result of \<^verbatim>\<open>CMTimeGetSeconds\<close>) is not modelled, and
  neither is NaN. Where the code divides by the frame rate, what a zero frame rate gives is
  said at the definition.
  Logging and the property dictionary \<^verbatim>\<open>m_properties\<close> are left out.
\<close>

subsection \<open>CoreMedia time values\<close>

text \<open>
  \<^verbatim>\<open>CMTime\<close> is the struct of CoreMedia's CMTime.h: an \<^verbatim>\<open>int64_t\<close> value, an
  \<^verbatim>\<open>int32_t\<close> timescale, \<^verbatim>\<open>uint32_t\<close> flags and an \<^verbatim>\<open>int64_t\<close> epoch. The time is
  value/timescale seconds. Bit 0 of the flags is \<^verbatim>\<open>kCMTimeFlags_Valid\<close>, bit 1 is
  \<^verbatim>\<open>kCMTimeFlags_HasBeenRounded\<close>.
\<close>

record CMTime =
  timevalue :: int
  timescale :: int
  timeflags :: "32 word"
  epoch :: int

definition kCMTimeFlags_Valid :: "32 word" where
  "kCMTimeFlags_Valid = 1"

definition kCMTimeFlags_HasBeenRounded :: "32 word" where
  "kCMTimeFlags_HasBeenRounded = 2"

definition kCMTimeMaxTimescale :: int where
  "kCMTimeMaxTimescale = 2147483647"

definition CMTIME_IS_VALID :: "CMTime \<Rightarrow> bool" where
  "CMTIME_IS_VALID t = (timeflags t AND kCMTimeFlags_Valid \<noteq> 0)"

definition CMTIME_IS_INVALID :: "CMTime \<Rightarrow> bool" where
  "CMTIME_IS_INVALID t = (\<not> CMTIME_IS_VALID t)"

text \<open>The value left by \<^verbatim>\<open>memset(&m_pts, 0, sizeof(CMTime))\<close> in \<^verbatim>\<open>Stream::start\<close>.\<close>

definition zeroed_CMTime :: CMTime where
  "zeroed_CMTime = \<lparr>timevalue = 0, timescale = 0, timeflags = 0, epoch = 0\<rparr>"

text \<open>
  The CoreMedia functions that \<^verbatim>\<open>sendFrame\<close> calls are not code of this repository.
  They are a parameter of the model: a record of functions, so that what is proved of the
  stream holds whatever the library computes.
\<close>

record CoreMedia =
  CMTimeMake :: "int \<Rightarrow> int \<Rightarrow> CMTime"
  CMTimeAdd :: "CMTime \<Rightarrow> CMTime \<Rightarrow> CMTime"
  CMTimeSubtract :: "CMTime \<Rightarrow> CMTime \<Rightarrow> CMTime"
  CMTimeGetSeconds :: "CMTime \<Rightarrow> rat"
  CMTimeCompare :: "CMTime \<Rightarrow> CMTime \<Rightarrow> int"

subsection \<open>Frames, formats and samples\<close>

text \<open>
  \<^verbatim>\<open>VideoFormat\<close> and \<^verbatim>\<open>VideoFrame\<close> are declared in VCamUtils, outside of the
  file. The records hold what stream.cpp reads of them: the fourcc, the width, the height and
  the frame rates of a format; the format and the bytes of a frame.
\<close>

type_synonym FourCC = "32 word"

record VideoFormat =
  fourcc :: FourCC
  width :: int
  height :: int
  frameRates :: "rat list"

record VideoFrame =
  format :: VideoFormat
  data :: "8 word list"

datatype Scaling = ScalingFast | ScalingLinear

datatype AspectRatio = AspectRatioIgnore | AspectRatioKeep

text \<open>
  The member functions of \<^verbatim>\<open>VideoFrame\<close> that the stream calls are not in the file
  either. They are the second parameter of the model.
\<close>

record VideoFrameOps =
  mirror :: "bool \<Rightarrow> bool \<Rightarrow> VideoFrame \<Rightarrow> VideoFrame"
  scaled :: "int \<Rightarrow> int \<Rightarrow> Scaling \<Rightarrow> AspectRatio \<Rightarrow> VideoFrame \<Rightarrow> VideoFrame"
  convert :: "FourCC \<Rightarrow> VideoFrame \<Rightarrow> VideoFrame"
  clear :: "VideoFrame \<Rightarrow> VideoFrame"

definition kCMIOSampleBufferNoDiscontinuities :: "32 word" where
  "kCMIOSampleBufferNoDiscontinuities = 0"

definition kCMIOSampleBufferDiscontinuityFlag_UnknownDiscontinuity :: "32 word" where
  "kCMIOSampleBufferDiscontinuityFlag_UnknownDiscontinuity = 1"

text \<open>
  What \<^verbatim>\<open>CMIOSampleBufferCreateForImageBuffer\<close> is given: the image buffer (the bytes
  copied from the frame and the dimensions and pixel format it was created with), the
  \<^verbatim>\<open>CMSampleTimingInfo\<close> (duration, presentation and decode time stamp), the sequence
  number and the discontinuity flags.
\<close>

record SampleBuffer =
  imageData :: "8 word list"
  imageWidth :: int
  imageHeight :: int
  pixelFormat :: FourCC
  duration :: CMTime
  presentationTimeStamp :: CMTime
  decodeTimeStamp :: CMTime
  sequenceNumber :: "64 word"
  discontinuityFlags :: "32 word"

subsection \<open>The sample buffer queue\<close>

text \<open>
  Modelled from the spec: \<^verbatim>\<open>SampleBufferQueue\<close> (queue.h of the plugin) is not in the
  file. The spec's BoundedFrameQueue has a capacity fixed at construction, a fullness that
  is the fraction of the capacity in use, and an enqueue that rejects the entry when the
  queue is full.
\<close>

record SampleBufferQueue =
  items :: "SampleBuffer list"
  capacity :: nat

definition fullness :: "SampleBufferQueue \<Rightarrow> rat" where
  "fullness q = (if capacity q = 0 then 1 else of_nat (length (items q)) / of_nat (capacity q))"

definition enqueue :: "SampleBuffer \<Rightarrow> SampleBufferQueue \<Rightarrow> SampleBufferQueue" where
  "enqueue b q = (if 1 \<le> fullness q then q else q\<lparr>items := items q @ [b]\<rparr>)"

definition dequeue :: "nat \<Rightarrow> SampleBufferQueue \<Rightarrow> SampleBufferQueue" where
  "dequeue n q = q\<lparr>items := drop n (items q)\<rparr>"

subsection \<open>The stream's private state\<close>

text \<open>
  \<^verbatim>\<open>m_timer\<close> is \<^verbatim>\<open>None\<close> for the null pointer and otherwise holds the interval the
  run loop timer was created with. \<^verbatim>\<open>m_queueAltered\<close> is \<^verbatim>\<open>None\<close> for the null
  function pointer.
\<close>

record StreamPrivate =
  m_sequence :: "64 word"
  m_pts :: CMTime
  m_queue :: SampleBufferQueue
  m_queueAltered :: "nat option"
  m_format :: VideoFormat
  m_fps :: rat
  m_currentFrame :: VideoFrame
  m_testFrame :: VideoFrame
  m_testFrameAdapted :: VideoFrame
  m_queueAlteredRefCon :: nat
  m_timer :: "rat option"
  m_running :: bool
  m_broadcasting :: bool
  m_horizontalMirror :: bool
  m_verticalMirror :: bool
  m_scaling :: Scaling
  m_aspectRatio :: AspectRatio

text \<open>The calls that leave the stream, in the order they are made.\<close>

datatype effect =
    AbsoluteTimeGetCurrent
  | ClockPostTimingEvent CMTime "64 word" bool
  | PixelBufferCreate int int FourCC
  | QueueEnqueue SampleBuffer
  | QueueAltered nat SampleBuffer nat

text \<open>What the host answers during one call of \<^verbatim>\<open>sendFrame\<close>.\<close>

record host =
  absoluteTime :: rat
  pixelBufferCreated :: bool

subsection \<open>Conversions of doubles\<close>

text \<open>
  A conversion of a double to an integer type truncates towards zero. Out of the range of
  the target type the C++ behaviour is undefined; the model wraps (\<^verbatim>\<open>UInt64\<close>) or keeps
  the integer (\<^verbatim>\<open>int32_t\<close>).
\<close>

definition truncate_double :: "rat \<Rightarrow> int" where
  "truncate_double d = (if 0 \<le> d then \<lfloor>d\<rfloor> else \<lceil>d\<rceil>)"

definition UInt64 :: "rat \<Rightarrow> 64 word" where
  "UInt64 d = word_of_int (truncate_double d)"

text \<open>
  \<^verbatim>\<open>ptsDiff > 2. / m_fps\<close>: with \<^verbatim>\<open>m_fps\<close> zero the quotient is plus infinity and the
  comparison is false.
\<close>

definition exceeds_two_frames :: "rat \<Rightarrow> rat \<Rightarrow> bool" where
  "exceeds_two_frames ptsDiff fps = (fps \<noteq> 0 \<and> ptsDiff > 2 / fps)"

subsection \<open>StreamPrivate::sendFrame\<close>

text \<open>
  The candidate pts is \<^verbatim>\<open>CMTimeMake(hostTime, 1e9)\<close> with
  \<^verbatim>\<open>hostTime = UInt64(CFAbsoluteTimeGetCurrent())\<close>; \<^verbatim>\<open>ptsDiff\<close> is
  \<^verbatim>\<open>CMTimeGetSeconds(CMTimeSubtract(this->m_pts, pts))\<close>: the stored pts minus the
  candidate.
\<close>

definition candidate_pts :: "CoreMedia \<Rightarrow> host \<Rightarrow> CMTime" where
  "candidate_pts cm h = CMTimeMake cm (sint (UInt64 (absoluteTime h))) 1000000000"

definition pts_diff :: "CoreMedia \<Rightarrow> host \<Rightarrow> StreamPrivate \<Rightarrow> rat" where
  "pts_diff cm h st = CMTimeGetSeconds cm (CMTimeSubtract cm (m_pts st) (candidate_pts cm h))"

definition resync_needed :: "CoreMedia \<Rightarrow> host \<Rightarrow> StreamPrivate \<Rightarrow> bool" where
  "resync_needed cm h st =
     (CMTIME_IS_INVALID (m_pts st)
      \<or> pts_diff cm h st < 0
      \<or> exceeds_two_frames (pts_diff cm h st) (m_fps st))"

definition frame_duration :: "CoreMedia \<Rightarrow> StreamPrivate \<Rightarrow> CMTime" where
  "frame_duration cm st = CMTimeMake cm 1 (truncate_double (m_fps st))"

definition sample_for :: "VideoFrame \<Rightarrow> CMTime \<Rightarrow> CMTime \<Rightarrow> 64 word \<Rightarrow> bool \<Rightarrow> SampleBuffer" where
  "sample_for frame dur pts seq resync =
     \<lparr>imageData = data frame,
      imageWidth = width (format frame),
      imageHeight = height (format frame),
      pixelFormat = fourcc (format frame),
      duration = dur,
      presentationTimeStamp = pts,
      decodeTimeStamp = pts,
      sequenceNumber = seq,
      discontinuityFlags =
        (if resync then kCMIOSampleBufferDiscontinuityFlag_UnknownDiscontinuity
         else kCMIOSampleBufferNoDiscontinuities)\<rparr>"

text \<open>
  \<^verbatim>\<open>sendFrame\<close>, statement by statement: return when the queue is full; read the host
  time and make the candidate pts; return when it compares equal to the stored pts; on
  drift store the candidate and set \<^verbatim>\<open>resync\<close>; post the timing event with the stored
  pts; create the pixel buffer and return when there is none; build the sample buffer with
  the duration \<^verbatim>\<open>CMTimeMake(1, m_fps)\<close>, the stored pts, the sequence counter and the
  discontinuity flag; enqueue it; add the duration to the stored pts; increment the
  sequence counter; call the queue-altered callback when there is one. The two calls that
  build the format description and the sample buffer are taken to succeed, as the code
  takes them.
\<close>

definition sendFrame ::
  "CoreMedia \<Rightarrow> host \<Rightarrow> VideoFrame \<Rightarrow> StreamPrivate \<Rightarrow> StreamPrivate \<times> effect list" where
  "sendFrame cm h frame st =
     (if 1 \<le> fullness (m_queue st) then (st, [])
      else
        let hostTime = UInt64 (absoluteTime h);
            pts = candidate_pts cm h
        in
          if CMTimeCompare cm pts (m_pts st) = 0 then (st, [AbsoluteTimeGetCurrent])
          else
            let resync = resync_needed cm h st;
                st1 = (if resync then st\<lparr>m_pts := pts\<rparr> else st);
                fx1 = [AbsoluteTimeGetCurrent,
                       ClockPostTimingEvent (m_pts st1) hostTime resync,
                       PixelBufferCreate (width (format frame)) (height (format frame))
                         (fourcc (format frame))]
            in
              if \<not> pixelBufferCreated h then (st1, fx1)
              else
                let dur = frame_duration cm st1;
                    buffer = sample_for frame dur (m_pts st1) (m_sequence st1) resync;
                    st2 = st1\<lparr>m_queue := enqueue buffer (m_queue st1),
                              m_pts := CMTimeAdd cm (m_pts st1) dur,
                              m_sequence := m_sequence st1 + 1\<rparr>
                in (st2,
                    fx1 @ [QueueEnqueue buffer] @
                    (case m_queueAltered st1 of
                       None \<Rightarrow> []
                     | Some proc \<Rightarrow> [QueueAltered proc buffer (m_queueAlteredRefCon st1)])))"

definition streamLoop ::
  "CoreMedia \<Rightarrow> host \<Rightarrow> StreamPrivate \<Rightarrow> StreamPrivate \<times> effect list" where
  "streamLoop cm h st =
     (if \<not> m_running st then (st, []) else sendFrame cm h (m_currentFrame st) st)"

text \<open>The entries put in the queue and the callbacks made by a list of effects.\<close>

fun enqueued :: "effect list \<Rightarrow> SampleBuffer list" where
  "enqueued [] = []"
| "enqueued (QueueEnqueue b # fx) = b # enqueued fx"
| "enqueued (_ # fx) = enqueued fx"

fun notified :: "effect list \<Rightarrow> SampleBuffer list" where
  "notified [] = []"
| "notified (QueueAltered _ b _ # fx) = b # notified fx"
| "notified (_ # fx) = notified fx"

subsection \<open>The timer\<close>

text \<open>
  \<^verbatim>\<open>CFTimeInterval interval = 1.0 / this->m_fps\<close>. With \<^verbatim>\<open>m_fps\<close> zero the C++
  quotient is infinite, which a rational cannot hold: what is proved of the interval
  assumes a frame rate that is not zero.
\<close>

definition timer_interval :: "rat \<Rightarrow> rat" where
  "timer_interval fps = 1 / fps"

text \<open>
  \<^verbatim>\<open>timerCreated\<close> tells whether \<^verbatim>\<open>CFRunLoopTimerCreate\<close> returned a timer.
\<close>

definition startTimer :: "bool \<Rightarrow> StreamPrivate \<Rightarrow> StreamPrivate \<times> bool" where
  "startTimer timerCreated st =
     (if m_timer st \<noteq> None then (st, False)
      else
        let interval = timer_interval (m_fps st);
            st1 = st\<lparr>m_timer := (if timerCreated then Some interval else None)\<rparr>
        in if m_timer st1 = None then (st1, False) else (st1, True))"

definition stopTimer :: "StreamPrivate \<Rightarrow> StreamPrivate" where
  "stopTimer st = (if m_timer st = None then st else st\<lparr>m_timer := None\<rparr>)"

subsection \<open>The test frame and the configuration\<close>

definition adapt :: "VideoFrameOps \<Rightarrow> StreamPrivate \<Rightarrow> VideoFrame \<Rightarrow> VideoFrame" where
  "adapt ops st frame =
     convert ops (fourcc (m_format st))
       (scaled ops (width (m_format st)) (height (m_format st)) (m_scaling st) (m_aspectRatio st)
          (mirror ops (m_horizontalMirror st) (m_verticalMirror st) frame))"

definition updateTestFrame :: "VideoFrameOps \<Rightarrow> StreamPrivate \<Rightarrow> StreamPrivate" where
  "updateTestFrame ops st = st\<lparr>m_testFrameAdapted := adapt ops st (m_testFrame st)\<rparr>"

definition setFrameRate :: "rat \<Rightarrow> StreamPrivate \<Rightarrow> StreamPrivate" where
  "setFrameRate frameRate st = st\<lparr>m_fps := frameRate\<rparr>"

definition setFormat :: "VideoFormat \<Rightarrow> StreamPrivate \<Rightarrow> StreamPrivate" where
  "setFormat fmt st =
     (let st1 = (case frameRates fmt of [] \<Rightarrow> st | r # _ \<Rightarrow> setFrameRate r st)
      in st1\<lparr>m_format := fmt\<rparr>)"

definition setMirror :: "VideoFrameOps \<Rightarrow> bool \<Rightarrow> bool \<Rightarrow> StreamPrivate \<Rightarrow> StreamPrivate" where
  "setMirror ops horizontalMirror verticalMirror st =
     (if m_horizontalMirror st = horizontalMirror \<and> m_verticalMirror st = verticalMirror then st
      else updateTestFrame ops
             (st\<lparr>m_horizontalMirror := horizontalMirror, m_verticalMirror := verticalMirror\<rparr>))"

definition setScaling :: "VideoFrameOps \<Rightarrow> Scaling \<Rightarrow> StreamPrivate \<Rightarrow> StreamPrivate" where
  "setScaling ops scaling st =
     (if m_scaling st = scaling then st
      else updateTestFrame ops (st\<lparr>m_scaling := scaling\<rparr>))"

definition setAspectRatio :: "VideoFrameOps \<Rightarrow> AspectRatio \<Rightarrow> StreamPrivate \<Rightarrow> StreamPrivate" where
  "setAspectRatio ops aspectRatio st =
     (if m_aspectRatio st = aspectRatio then st
      else updateTestFrame ops (st\<lparr>m_aspectRatio := aspectRatio\<rparr>))"

definition setBroadcasting :: "bool \<Rightarrow> StreamPrivate \<Rightarrow> StreamPrivate" where
  "setBroadcasting broadcasting st =
     (if m_broadcasting st = broadcasting then st
      else
        let st1 = st\<lparr>m_broadcasting := broadcasting\<rparr>
        in if \<not> broadcasting then st1\<lparr>m_currentFrame := m_testFrameAdapted st1\<rparr> else st1)"

subsection \<open>Stream::start, Stream::stop, Stream::frameReady\<close>

definition start :: "VideoFrameOps \<Rightarrow> bool \<Rightarrow> StreamPrivate \<Rightarrow> StreamPrivate \<times> bool" where
  "start ops timerCreated st =
     (if m_running st then (st, False)
      else
        let st1 = updateTestFrame ops st;
            st2 = st1\<lparr>m_currentFrame := m_testFrameAdapted st1,
                      m_sequence := 0,
                      m_pts := zeroed_CMTime\<rparr>;
            (st3, ok) = startTimer timerCreated st2;
            st4 = st3\<lparr>m_running := ok\<rparr>
        in (st4, m_running st4))"

definition stop :: "VideoFrameOps \<Rightarrow> StreamPrivate \<Rightarrow> StreamPrivate" where
  "stop ops st =
     (if \<not> m_running st then st
      else
        let st1 = stopTimer (st\<lparr>m_running := False\<rparr>)
        in st1\<lparr>m_currentFrame := clear ops (m_currentFrame st1),
                m_testFrameAdapted := clear ops (m_testFrameAdapted st1)\<rparr>)"

definition frameReady :: "VideoFrameOps \<Rightarrow> VideoFrame \<Rightarrow> StreamPrivate \<Rightarrow> StreamPrivate" where
  "frameReady ops frame st =
     (if \<not> m_running st then st
      else if m_broadcasting st then st\<lparr>m_currentFrame := adapt ops st frame\<rparr>
      else st)"

subsection \<open>Stream::Stream, Stream::copyBufferQueue\<close>

text \<open>
  The constructor sets the members below and leaves \<^verbatim>\<open>m_sequence\<close>, \<^verbatim>\<open>m_pts\<close> and
  \<^verbatim>\<open>m_fps\<close> as they are in the fresh memory, which is its second argument. The queue is
  made with room for 30 sample buffers.
\<close>

definition Stream_constructor :: "VideoFrame \<Rightarrow> StreamPrivate \<Rightarrow> StreamPrivate" where
  "Stream_constructor testFrame fresh =
     fresh\<lparr>m_queueAltered := None,
           m_queueAlteredRefCon := 0,
           m_timer := None,
           m_running := False,
           m_broadcasting := False,
           m_horizontalMirror := False,
           m_verticalMirror := False,
           m_scaling := ScalingFast,
           m_aspectRatio := AspectRatioIgnore,
           m_testFrame := testFrame,
           m_queue := \<lparr>items = [], capacity = 30\<rparr>\<rparr>"

definition copyBufferQueue :: "nat option \<Rightarrow> nat \<Rightarrow> StreamPrivate \<Rightarrow> StreamPrivate" where
  "copyBufferQueue queueAlteredProc queueAlteredRefCon st =
     st\<lparr>m_queueAltered := queueAlteredProc, m_queueAlteredRefCon := queueAlteredRefCon\<rparr>"

subsection \<open>Runs of the timer\<close>

text \<open>
  A run is a list of timer firings. Before each firing the consumer may have taken entries
  out of the queue (\<^verbatim>\<open>consumed\<close>); then \<^verbatim>\<open>streamLoop\<close> runs with what the host answers.
  The effects of the firings are appended in order.
\<close>

record firing =
  consumed :: nat
  answers :: host

fun run :: "CoreMedia \<Rightarrow> firing list \<Rightarrow> StreamPrivate \<Rightarrow> StreamPrivate \<times> effect list" where
  "run cm [] st = (st, [])"
| "run cm (f # fs) st =
     (let (st1, fx1) = streamLoop cm (answers f) (st\<lparr>m_queue := dequeue (consumed f) (m_queue st)\<rparr>);
          (st2, fx2) = run cm fs st1
      in (st2, fx1 @ fx2))"

subsection \<open>A CoreMedia that computes exactly\<close>

text \<open>
  For concrete runs the library functions are given the behaviour that CMTime.h documents:
  \<^verbatim>\<open>CMTimeMake\<close> builds a valid time of epoch 0; a sum or difference with an invalid
  operand is invalid, and otherwise has the least common multiple of the two timescales, or
  \<^verbatim>\<open>kCMTimeMaxTimescale\<close> with the value rounded half away from zero and flagged as rounded
  when that multiple is too large; \<^verbatim>\<open>CMTimeGetSeconds\<close> is value/timescale;
  \<^verbatim>\<open>CMTimeCompare\<close> orders numeric times by their seconds, puts an invalid time above
  every numeric one and makes two invalid times equal. Infinite and indefinite times,
  epochs other than 0 and the overflow of the 64-bit value are not modelled.
\<close>

definition seconds :: "CMTime \<Rightarrow> rat" where
  "seconds t = of_int (timevalue t) / of_int (timescale t)"

definition round_half_away :: "rat \<Rightarrow> int" where
  "round_half_away x = (if 0 \<le> x then \<lfloor>x + 1 / 2\<rfloor> else \<lceil>x - 1 / 2\<rceil>)"

definition exact_CMTimeMake :: "int \<Rightarrow> int \<Rightarrow> CMTime" where
  "exact_CMTimeMake v ts =
     \<lparr>timevalue = v, timescale = ts, timeflags = kCMTimeFlags_Valid, epoch = 0\<rparr>"

definition exact_combine :: "int \<Rightarrow> CMTime \<Rightarrow> CMTime \<Rightarrow> CMTime" where
  "exact_combine sign a b =
     (if CMTIME_IS_INVALID a \<or> CMTIME_IS_INVALID b then zeroed_CMTime
      else
        let ts = lcm (timescale a) (timescale b)
        in if ts \<le> kCMTimeMaxTimescale
           then \<lparr>timevalue = timevalue a * (ts div timescale a)
                              + sign * (timevalue b * (ts div timescale b)),
                 timescale = ts, timeflags = kCMTimeFlags_Valid, epoch = 0\<rparr>
           else \<lparr>timevalue = round_half_away
                                ((seconds a + of_int sign * seconds b) * of_int kCMTimeMaxTimescale),
                 timescale = kCMTimeMaxTimescale,
                 timeflags = kCMTimeFlags_Valid OR kCMTimeFlags_HasBeenRounded, epoch = 0\<rparr>)"

definition exact_CMTimeCompare :: "CMTime \<Rightarrow> CMTime \<Rightarrow> int" where
  "exact_CMTimeCompare a b =
     (if CMTIME_IS_INVALID a \<and> CMTIME_IS_INVALID b then 0
      else if CMTIME_IS_INVALID a then 1
      else if CMTIME_IS_INVALID b then - 1
      else if seconds a < seconds b then - 1
      else if seconds a > seconds b then 1
      else 0)"

definition exact_CoreMedia :: CoreMedia where
  "exact_CoreMedia =
     \<lparr>CMTimeMake = exact_CMTimeMake,
      CMTimeAdd = exact_combine 1,
      CMTimeSubtract = exact_combine (- 1),
      CMTimeGetSeconds = seconds,
      CMTimeCompare = exact_CMTimeCompare\<rparr>"

subsection \<open>The chain of time stamps\<close>

text \<open>
  \<^verbatim>\<open>chained cm p bs\<close>: every entry of \<^verbatim>\<open>bs\<close> either is marked as a discontinuity or
  carries the expected pts, which is \<^verbatim>\<open>p\<close> for the first entry and, after an entry, that
  entry's pts plus that entry's duration.
\<close>

fun chained :: "CoreMedia \<Rightarrow> CMTime \<Rightarrow> SampleBuffer list \<Rightarrow> bool" where
  "chained cm p [] = True"
| "chained cm p (b # bs) =
     ((discontinuityFlags b = kCMIOSampleBufferDiscontinuityFlag_UnknownDiscontinuity
       \<or> presentationTimeStamp b = p)
      \<and> chained cm (CMTimeAdd cm (presentationTimeStamp b) (duration b)) bs)"

subsection \<open>A concrete stream\<close>

text \<open>
  The values the theorems below are evaluated at. The frame operations of the example keep
  the bytes and give the result the size and the fourcc that were asked for; clearing
  empties the frame. The stream is constructed, given a format of 2x1 pixels at 10 frames
  per second and a queue-altered callback, and started.
\<close>

definition example_ops :: VideoFrameOps where
  "example_ops =
     \<lparr>mirror = (\<lambda>h v f. f),
      scaled = (\<lambda>w h s a f. f\<lparr>format := (format f)\<lparr>width := w, height := h\<rparr>\<rparr>),
      convert = (\<lambda>c f. f\<lparr>format := (format f)\<lparr>fourcc := c\<rparr>\<rparr>),
      clear = (\<lambda>f. \<lparr>format = \<lparr>fourcc = 0, width = 0, height = 0, frameRates = []\<rparr>,
                     data = []\<rparr>)\<rparr>"

definition example_format :: VideoFormat where
  "example_format = \<lparr>fourcc = 1, width = 2, height = 1, frameRates = [10]\<rparr>"

definition other_format :: VideoFormat where
  "other_format = \<lparr>fourcc = 1, width = 4, height = 2, frameRates = [10]\<rparr>"

definition example_testFrame :: VideoFrame where
  "example_testFrame =
     \<lparr>format = \<lparr>fourcc = 2, width = 4, height = 2, frameRates = []\<rparr>,
      data = [1, 2, 3, 4, 5, 6, 7, 8]\<rparr>"

definition fresh_memory :: StreamPrivate where
  "fresh_memory =
     \<lparr>m_sequence = 77, m_pts = zeroed_CMTime, m_queue = \<lparr>items = [], capacity = 0\<rparr>,
      m_queueAltered = None,
      m_format = \<lparr>fourcc = 0, width = 0, height = 0, frameRates = []\<rparr>,
      m_fps = 0,
      m_currentFrame = \<lparr>format = \<lparr>fourcc = 0, width = 0, height = 0, frameRates = []\<rparr>, data = []\<rparr>,
      m_testFrame = \<lparr>format = \<lparr>fourcc = 0, width = 0, height = 0, frameRates = []\<rparr>, data = []\<rparr>,
      m_testFrameAdapted =
        \<lparr>format = \<lparr>fourcc = 0, width = 0, height = 0, frameRates = []\<rparr>, data = []\<rparr>,
      m_queueAlteredRefCon = 0, m_timer = None, m_running = False, m_broadcasting = False,
      m_horizontalMirror = False, m_verticalMirror = False, m_scaling = ScalingFast,
      m_aspectRatio = AspectRatioIgnore\<rparr>"

definition configured_stream :: StreamPrivate where
  "configured_stream =
     copyBufferQueue (Some 1) 7
       (setFormat example_format (Stream_constructor example_testFrame fresh_memory))"

definition example_stream :: StreamPrivate where
  "example_stream = fst (start example_ops True configured_stream)"

definition host_at :: "rat \<Rightarrow> bool \<Rightarrow> host" where
  "host_at t created = \<lparr>absoluteTime = t, pixelBufferCreated = created\<rparr>"

definition firing_at :: "rat \<Rightarrow> firing" where
  "firing_at t = \<lparr>consumed = 0, answers = host_at t True\<rparr>"

definition example_firings :: "firing list" where
  "example_firings = [firing_at 5, firing_at 5, firing_at 6, firing_at 6]"

definition after_one :: StreamPrivate where
  "after_one = fst (run exact_CoreMedia [firing_at 5] example_stream)"

definition after_two :: StreamPrivate where
  "after_two = fst (run exact_CoreMedia [firing_at 5, firing_at 5] example_stream)"

definition after_three :: StreamPrivate where
  "after_three = fst (run exact_CoreMedia [firing_at 5, firing_at 5, firing_at 6] example_stream)"

definition stalled_stream :: StreamPrivate where
  "stalled_stream =
     fst (run exact_CoreMedia (map (\<lambda>k. firing_at (5 + of_nat k / 10)) [0..<30]) example_stream)"

definition after_failed_allocation :: StreamPrivate where
  "after_failed_allocation =
     fst (run exact_CoreMedia [\<lparr>consumed = 0, answers = host_at 5 False\<rparr>] example_stream)"

definition broadcasting_stream :: StreamPrivate where
  "broadcasting_stream = setBroadcasting True example_stream"

subsection \<open>Consecutive sequence numbers\<close>

text \<open>
  \<^verbatim>\<open>numbered s bs\<close>: the entries of \<^verbatim>\<open>bs\<close> carry the sequence numbers
  \<^verbatim>\<open>s\<close>, \<^verbatim>\<open>s + 1\<close>, ... in this order (a 64-bit counter, so the sum wraps).
\<close>

fun numbered :: "64 word \<Rightarrow> SampleBuffer list \<Rightarrow> bool" where
  "numbered s [] = True"
| "numbered s (b # bs) = (sequenceNumber b = s \<and> numbered (s + 1) bs)"

section \<open>Properties\<close>

subsection \<open>One call of sendFrame, path by path\<close>

lemma sendFrame_emits:
  assumes "fullness (m_queue st) < 1"
      and "CMTimeCompare cm (candidate_pts cm h) (m_pts st) \<noteq> 0"
      and "pixelBufferCreated h"
  shows "sendFrame cm h frame st =
     (let resync = resync_needed cm h st;
          p = (if resync then candidate_pts cm h else m_pts st);
          dur = frame_duration cm st;
          buffer = sample_for frame dur p (m_sequence st) resync
      in (st\<lparr>m_queue := enqueue buffer (m_queue st),
              m_pts := CMTimeAdd cm p dur,
              m_sequence := m_sequence st + 1\<rparr>,
          [AbsoluteTimeGetCurrent,
           ClockPostTimingEvent p (UInt64 (absoluteTime h)) resync,
           PixelBufferCreate (width (format frame)) (height (format frame)) (fourcc (format frame)),
           QueueEnqueue buffer] @
          (case m_queueAltered st of None \<Rightarrow> []
           | Some proc \<Rightarrow> [QueueAltered proc buffer (m_queueAlteredRefCon st)])))"
  using assms by (simp add: sendFrame_def Let_def frame_duration_def split: option.split)

lemma sendFrame_allocation_failed:
  assumes "fullness (m_queue st) < 1"
      and "CMTimeCompare cm (candidate_pts cm h) (m_pts st) \<noteq> 0"
      and "\<not> pixelBufferCreated h"
  shows "sendFrame cm h frame st =
     (let resync = resync_needed cm h st;
          p = (if resync then candidate_pts cm h else m_pts st)
      in ((if resync then st\<lparr>m_pts := candidate_pts cm h\<rparr> else st),
          [AbsoluteTimeGetCurrent,
           ClockPostTimingEvent p (UInt64 (absoluteTime h)) resync,
           PixelBufferCreate (width (format frame)) (height (format frame)) (fourcc (format frame))]))"
  using assms by (simp add: sendFrame_def Let_def)

lemma enqueued_emits:
  assumes "fullness (m_queue st) < 1"
      and "CMTimeCompare cm (candidate_pts cm h) (m_pts st) \<noteq> 0"
      and "pixelBufferCreated h"
  shows "enqueued (snd (sendFrame cm h frame st)) =
     [sample_for frame (frame_duration cm st)
        (if resync_needed cm h st then candidate_pts cm h else m_pts st)
        (m_sequence st) (resync_needed cm h st)]"
  using assms by (simp add: sendFrame_emits Let_def split: option.split)

lemma state_emits:
  assumes "fullness (m_queue st) < 1"
      and "CMTimeCompare cm (candidate_pts cm h) (m_pts st) \<noteq> 0"
      and "pixelBufferCreated h"
  shows "m_pts (fst (sendFrame cm h frame st)) =
           CMTimeAdd cm (if resync_needed cm h st then candidate_pts cm h else m_pts st)
             (frame_duration cm st)"
    and "m_sequence (fst (sendFrame cm h frame st)) = m_sequence st + 1"
  using assms by (simp_all add: sendFrame_emits Let_def)

subsection \<open>Drift\<close>

text \<open>
  C1, as the claim states it, fails: the code subtracts the other way round. It computes
  \<^verbatim>\<open>ptsDiff = CMTimeGetSeconds(CMTimeSubtract(m_pts, pts))\<close>, the stored pts minus the
  candidate, and resyncs when this is negative or above 2/fps. At the third firing of the
  example (10 frames per second) the stored pts is 200000005/10^9 s, the pts of the last
  entry is 100000005/10^9 s and the candidate is 6/10^9 s: the difference between the
  candidate and the last pts is negative, whichever of the two is meant, and the tick does
  not resync. It enqueues an entry without discontinuity flag whose pts is the stored pts,
  not the candidate.
\<close>

theorem drift_direction_counterexample:
  "m_pts after_two = \<lparr>timevalue = 200000005, timescale = 1000000000, timeflags = 1, epoch = 0\<rparr>
   \<and> map presentationTimeStamp (items (m_queue after_two))
       = [\<lparr>timevalue = 5, timescale = 1000000000, timeflags = 1, epoch = 0\<rparr>,
          \<lparr>timevalue = 100000005, timescale = 1000000000, timeflags = 1, epoch = 0\<rparr>]
   \<and> candidate_pts exact_CoreMedia (host_at 6 True)
       = \<lparr>timevalue = 6, timescale = 1000000000, timeflags = 1, epoch = 0\<rparr>
   \<and> CMTimeGetSeconds exact_CoreMedia
        (CMTimeSubtract exact_CoreMedia (candidate_pts exact_CoreMedia (host_at 6 True))
           (m_pts after_two)) < 0
   \<and> fullness (m_queue after_two) < 1
   \<and> CMTimeCompare exact_CoreMedia (candidate_pts exact_CoreMedia (host_at 6 True))
       (m_pts after_two) \<noteq> 0
   \<and> map presentationTimeStamp
        (enqueued (snd (sendFrame exact_CoreMedia (host_at 6 True) (m_currentFrame after_two)
                          after_two)))
       = [\<lparr>timevalue = 200000005, timescale = 1000000000, timeflags = 1, epoch = 0\<rparr>]
   \<and> map discontinuityFlags
        (enqueued (snd (sendFrame exact_CoreMedia (host_at 6 True) (m_currentFrame after_two)
                          after_two)))
       = [kCMIOSampleBufferNoDiscontinuities]"
  by code_simp

text \<open>
  C1, amended. A tick that is not skipped (the queue has room, the candidate pts does not
  compare equal to the stored pts, the pixel buffer is created) and that finds the stored
  pts invalid, or the stored pts minus the candidate negative (the candidate is later than
  the stored pts), or the stored pts minus the candidate above 2/fps seconds, enqueues one
  entry whose pts is the candidate computed from the host time,
  \<^verbatim>\<open>CMTimeMake(hostTime, 1e9)\<close>, and whose discontinuity flag is set.
\<close>

theorem drift_tick_resyncs:
  assumes "fullness (m_queue st) < 1"
      and "CMTimeCompare cm (candidate_pts cm h) (m_pts st) \<noteq> 0"
      and "pixelBufferCreated h"
      and "CMTIME_IS_INVALID (m_pts st)
           \<or> pts_diff cm h st < 0
           \<or> (m_fps st \<noteq> 0 \<and> 2 / m_fps st < pts_diff cm h st)"
  shows "\<exists>b. enqueued (snd (sendFrame cm h frame st)) = [b]
           \<and> presentationTimeStamp b = candidate_pts cm h
           \<and> presentationTimeStamp b = CMTimeMake cm (sint (UInt64 (absoluteTime h))) 1000000000
           \<and> discontinuityFlags b = kCMIOSampleBufferDiscontinuityFlag_UnknownDiscontinuity"
proof -
  have r: "resync_needed cm h st"
    using assms(4) by (simp add: resync_needed_def exceeds_two_frames_def)
  show ?thesis
    using assms(1-3) r by (simp add: enqueued_emits sample_for_def candidate_pts_def)
qed

text \<open>
  The theorem at the fourth firing of the example: three entries went out at 10 frames per
  second, the stored pts is 0.3 s ahead of the candidate, which is more than 2/10 s.
\<close>

theorem drift_tick_resyncs_witness:
  "fullness (m_queue after_three) < 1
   \<and> CMTimeCompare exact_CoreMedia (candidate_pts exact_CoreMedia (host_at 6 True))
       (m_pts after_three) \<noteq> 0
   \<and> pixelBufferCreated (host_at 6 True)
   \<and> m_fps after_three \<noteq> 0
   \<and> 2 / m_fps after_three < pts_diff exact_CoreMedia (host_at 6 True) after_three
   \<and> (\<exists>b. enqueued (snd (sendFrame exact_CoreMedia (host_at 6 True)
                           (m_currentFrame after_three) after_three)) = [b]
           \<and> presentationTimeStamp b = candidate_pts exact_CoreMedia (host_at 6 True)
           \<and> presentationTimeStamp b
               = CMTimeMake exact_CoreMedia (sint (UInt64 (absoluteTime (host_at 6 True)))) 1000000000
           \<and> discontinuityFlags b = kCMIOSampleBufferDiscontinuityFlag_UnknownDiscontinuity)"
proof -
  have h1: "fullness (m_queue after_three) < 1"
    by code_simp
  have h2: "CMTimeCompare exact_CoreMedia (candidate_pts exact_CoreMedia (host_at 6 True))
       (m_pts after_three) \<noteq> 0"
    by code_simp
  have h3: "pixelBufferCreated (host_at 6 True)"
    by code_simp
  have h4: "m_fps after_three \<noteq> 0"
    by code_simp
  have h5: "2 / m_fps after_three < pts_diff exact_CoreMedia (host_at 6 True) after_three"
    by code_simp
  from h4 h5 have h6: "CMTIME_IS_INVALID (m_pts after_three)
           \<or> pts_diff exact_CoreMedia (host_at 6 True) after_three < 0
           \<or> (m_fps after_three \<noteq> 0
                \<and> 2 / m_fps after_three < pts_diff exact_CoreMedia (host_at 6 True) after_three)"
    by blast
  from h1 h2 h3 h4 h5 drift_tick_resyncs [OF h1 h2 h3 h6, of "m_currentFrame after_three"]
  show ?thesis
    by blast
qed

subsection \<open>The steady state\<close>

text \<open>
  C2, as the claim states it, fails. A steady tick sends the stored pts as it is; the frame
  duration is added after the entry is enqueued, for the next tick. At the second firing of
  the example the stored pts is 100000005/10^9 s and the entry carries this very value,
  not the stored pts plus 1/10 s. The value sent is a previous pts plus one frame duration
  only when the stored pts was left by a tick that enqueued an entry. Otherwise it is not:
  let the first tick of the example stream resync to the candidate of the second 5 and
  fail to create its pixel buffer, and let the host clock be set back; the next tick, in
  the second 4, is neither skipped nor a drift tick (the difference is 1/10^9 s) and
  enqueues the first entry of the stream, without discontinuity flag, with the pts
  5/10^9 s. No entry went before it, and the stored pts plus one frame duration would be
  100000005/10^9 s.
\<close>

theorem steady_pts_counterexample:
  "m_pts after_one = \<lparr>timevalue = 100000005, timescale = 1000000000, timeflags = 1, epoch = 0\<rparr>
   \<and> \<not> resync_needed exact_CoreMedia (host_at 5 True) after_one
   \<and> map presentationTimeStamp
        (enqueued (snd (sendFrame exact_CoreMedia (host_at 5 True)
                          (m_currentFrame after_one) after_one)))
       = [\<lparr>timevalue = 100000005, timescale = 1000000000, timeflags = 1, epoch = 0\<rparr>]
   \<and> CMTimeAdd exact_CoreMedia (m_pts after_one) (frame_duration exact_CoreMedia after_one)
       = \<lparr>timevalue = 200000005, timescale = 1000000000, timeflags = 1, epoch = 0\<rparr>
   \<and> enqueued (snd (run exact_CoreMedia [\<lparr>consumed = 0, answers = host_at 5 False\<rparr>]
                   example_stream)) = []
   \<and> m_pts after_failed_allocation
       = \<lparr>timevalue = 5, timescale = 1000000000, timeflags = 1, epoch = 0\<rparr>
   \<and> fullness (m_queue after_failed_allocation) < 1
   \<and> CMTimeCompare exact_CoreMedia (candidate_pts exact_CoreMedia (host_at 4 True))
       (m_pts after_failed_allocation) \<noteq> 0
   \<and> \<not> resync_needed exact_CoreMedia (host_at 4 True) after_failed_allocation
   \<and> map presentationTimeStamp
        (enqueued (snd (sendFrame exact_CoreMedia (host_at 4 True)
                          (m_currentFrame after_failed_allocation) after_failed_allocation)))
       = [\<lparr>timevalue = 5, timescale = 1000000000, timeflags = 1, epoch = 0\<rparr>]
   \<and> map discontinuityFlags
        (enqueued (snd (sendFrame exact_CoreMedia (host_at 4 True)
                          (m_currentFrame after_failed_allocation) after_failed_allocation)))
       = [kCMIOSampleBufferNoDiscontinuities]
   \<and> CMTimeAdd exact_CoreMedia (m_pts after_failed_allocation)
        (frame_duration exact_CoreMedia after_failed_allocation)
       = \<lparr>timevalue = 100000005, timescale = 1000000000, timeflags = 1, epoch = 0\<rparr>"
  by code_simp

text \<open>
  C2, amended. A tick that is neither skipped nor a drift tick enqueues one entry without
  discontinuity flag whose pts is the stored pts as the tick found it, whatever the host
  time. Whenever the stored pts was left by the tick that enqueued an entry \<^verbatim>\<open>b0\<close>
  (no tick in between changed it), the pts is the pts of \<^verbatim>\<open>b0\<close> plus the duration
  that \<^verbatim>\<open>b0\<close> carries, exactly one frame.
\<close>

theorem steady_tick_sends_stored_pts:
  assumes "fullness (m_queue st) < 1"
      and "CMTimeCompare cm (candidate_pts cm h) (m_pts st) \<noteq> 0"
      and "pixelBufferCreated h"
      and "\<not> resync_needed cm h st"
  shows "\<exists>b. enqueued (snd (sendFrame cm h frame st)) = [b]
           \<and> presentationTimeStamp b = m_pts st
           \<and> discontinuityFlags b = kCMIOSampleBufferNoDiscontinuities
           \<and> (\<forall>h0 frame0 st0 b0.
                 enqueued (snd (sendFrame cm h0 frame0 st0)) = [b0]
                 \<and> m_pts (fst (sendFrame cm h0 frame0 st0)) = m_pts st
                 \<longrightarrow> presentationTimeStamp b
                       = CMTimeAdd cm (presentationTimeStamp b0) (duration b0))"
proof -
  have stored: "m_pts (fst (sendFrame cm h0 frame0 st0))
          = CMTimeAdd cm (presentationTimeStamp b0) (duration b0)"
    if "enqueued (snd (sendFrame cm h0 frame0 st0)) = [b0]" for h0 frame0 st0 b0
    using that
    by (auto simp add: sendFrame_def Let_def sample_for_def frame_duration_def
        split: if_splits option.splits)
  let ?b = "sample_for frame (frame_duration cm st) (m_pts st) (m_sequence st) False"
  have sent: "enqueued (snd (sendFrame cm h frame st)) = [?b]"
    using assms by (simp add: enqueued_emits)
  have pts: "presentationTimeStamp ?b = m_pts st"
    and flag: "discontinuityFlags ?b = kCMIOSampleBufferNoDiscontinuities"
    by (simp_all add: sample_for_def)
  have "presentationTimeStamp ?b = CMTimeAdd cm (presentationTimeStamp b0) (duration b0)"
    if "enqueued (snd (sendFrame cm h0 frame0 st0)) = [b0]"
      and "m_pts (fst (sendFrame cm h0 frame0 st0)) = m_pts st" for h0 frame0 st0 b0
    using stored [OF that(1)] that(2) pts by simp
  with sent pts flag show ?thesis
    by blast
qed

text \<open>
  The theorem at the second firing of the example, in the same second as the first: the
  first entry has the pts 5/10^9 s and the duration 1/10 s, the second entry the pts
  5/10^9 s + 1/10 s.
\<close>

theorem steady_tick_sends_stored_pts_witness:
  "fullness (m_queue after_one) < 1
   \<and> CMTimeCompare exact_CoreMedia (candidate_pts exact_CoreMedia (host_at 5 True))
       (m_pts after_one) \<noteq> 0
   \<and> pixelBufferCreated (host_at 5 True)
   \<and> \<not> resync_needed exact_CoreMedia (host_at 5 True) after_one
   \<and> enqueued (snd (sendFrame exact_CoreMedia (host_at 5 True) (m_currentFrame example_stream)
                      example_stream))
       = [sample_for (m_currentFrame example_stream) (exact_CMTimeMake 1 10)
            (exact_CMTimeMake 5 1000000000) 0 True]
   \<and> m_pts (fst (sendFrame exact_CoreMedia (host_at 5 True) (m_currentFrame example_stream)
                    example_stream))
       = m_pts after_one
   \<and> (\<exists>b. enqueued (snd (sendFrame exact_CoreMedia (host_at 5 True)
                           (m_currentFrame after_one) after_one)) = [b]
           \<and> presentationTimeStamp b = m_pts after_one
           \<and> discontinuityFlags b = kCMIOSampleBufferNoDiscontinuities
           \<and> presentationTimeStamp b
               = CMTimeAdd exact_CoreMedia (exact_CMTimeMake 5 1000000000)
                   (exact_CMTimeMake 1 10))"
proof -
  let ?b0 = "sample_for (m_currentFrame example_stream) (exact_CMTimeMake 1 10)
          (exact_CMTimeMake 5 1000000000) 0 True"
  have h1: "fullness (m_queue after_one) < 1"
    by code_simp
  have h2: "CMTimeCompare exact_CoreMedia (candidate_pts exact_CoreMedia (host_at 5 True))
       (m_pts after_one) \<noteq> 0"
    by code_simp
  have h3: "pixelBufferCreated (host_at 5 True)"
    by code_simp
  have h4: "\<not> resync_needed exact_CoreMedia (host_at 5 True) after_one"
    by code_simp
  have p1: "enqueued (snd (sendFrame exact_CoreMedia (host_at 5 True)
                (m_currentFrame example_stream) example_stream)) = [?b0]"
    by code_simp
  have p2: "m_pts (fst (sendFrame exact_CoreMedia (host_at 5 True)
                (m_currentFrame example_stream) example_stream)) = m_pts after_one"
    by code_simp
  have p: "presentationTimeStamp ?b0 = exact_CMTimeMake 5 1000000000"
    and d: "duration ?b0 = exact_CMTimeMake 1 10"
    by (simp_all add: sample_for_def)
  from steady_tick_sends_stored_pts [OF h1 h2 h3 h4, of "m_currentFrame after_one"]
  obtain b where b: "enqueued (snd (sendFrame exact_CoreMedia (host_at 5 True)
                           (m_currentFrame after_one) after_one)) = [b]"
      "presentationTimeStamp b = m_pts after_one"
      "discontinuityFlags b = kCMIOSampleBufferNoDiscontinuities"
    and prev: "\<And>h0 frame0 st0 b0.
                 enqueued (snd (sendFrame exact_CoreMedia h0 frame0 st0)) = [b0]
                 \<Longrightarrow> m_pts (fst (sendFrame exact_CoreMedia h0 frame0 st0)) = m_pts after_one
                 \<Longrightarrow> presentationTimeStamp b
                       = CMTimeAdd exact_CoreMedia (presentationTimeStamp b0) (duration b0)"
    by blast
  from prev [OF p1 p2]
  have "presentationTimeStamp b
      = CMTimeAdd exact_CoreMedia (exact_CMTimeMake 5 1000000000) (exact_CMTimeMake 1 10)"
    unfolding p d .
  with b h1 h2 h3 h4 p1 p2 show ?thesis
    by blast
qed

subsection \<open>What a successful tick stores\<close>

text \<open>
  C3, as the claim states it, fails: after the first tick of the example the entry carries
  the pts 5/10^9 s and the stored pts is 100000005/10^9 s, the entry's pts plus 1/10 s.
\<close>

theorem stored_pts_counterexample:
  "length (enqueued (snd (sendFrame exact_CoreMedia (host_at 5 True)
             (m_currentFrame example_stream) example_stream))) = 1
   \<and> presentationTimeStamp (hd (enqueued (snd (sendFrame exact_CoreMedia (host_at 5 True)
             (m_currentFrame example_stream) example_stream))))
       = \<lparr>timevalue = 5, timescale = 1000000000, timeflags = 1, epoch = 0\<rparr>
   \<and> m_pts (fst (sendFrame exact_CoreMedia (host_at 5 True)
             (m_currentFrame example_stream) example_stream))
       = \<lparr>timevalue = 100000005, timescale = 1000000000, timeflags = 1, epoch = 0\<rparr>
   \<and> m_pts (fst (sendFrame exact_CoreMedia (host_at 5 True)
             (m_currentFrame example_stream) example_stream))
       \<noteq> presentationTimeStamp (hd (enqueued (snd (sendFrame exact_CoreMedia (host_at 5 True)
             (m_currentFrame example_stream) example_stream))))"
  by code_simp

text \<open>
  C3, amended. After every successful tick (the queue has room, the candidate does not
  compare equal to the stored pts, the pixel buffer is created) the stored pts is the pts of
  the entry of this tick plus the duration this entry carries, one frame: the pts the next
  steady tick will send. The entry carries the sequence counter as it was, and the counter
  has gone up by exactly 1 (modulo 2^64).
\<close>

theorem successful_tick_stores_next_pts:
  assumes "fullness (m_queue st) < 1"
      and "CMTimeCompare cm (candidate_pts cm h) (m_pts st) \<noteq> 0"
      and "pixelBufferCreated h"
  shows "\<exists>b. enqueued (snd (sendFrame cm h frame st)) = [b]
           \<and> duration b = CMTimeMake cm 1 (truncate_double (m_fps st))
           \<and> m_pts (fst (sendFrame cm h frame st))
               = CMTimeAdd cm (presentationTimeStamp b) (duration b)
           \<and> sequenceNumber b = m_sequence st
           \<and> m_sequence (fst (sendFrame cm h frame st)) = m_sequence st + 1"
  using assms by (simp add: enqueued_emits state_emits sample_for_def frame_duration_def)

theorem successful_tick_stores_next_pts_witness:
  "fullness (m_queue after_one) < 1
   \<and> CMTimeCompare exact_CoreMedia (candidate_pts exact_CoreMedia (host_at 5 True))
       (m_pts after_one) \<noteq> 0
   \<and> pixelBufferCreated (host_at 5 True)
   \<and> (\<exists>b. enqueued (snd (sendFrame exact_CoreMedia (host_at 5 True)
                           (m_currentFrame after_one) after_one)) = [b]
           \<and> duration b = CMTimeMake exact_CoreMedia 1 (truncate_double (m_fps after_one))
           \<and> m_pts (fst (sendFrame exact_CoreMedia (host_at 5 True)
                            (m_currentFrame after_one) after_one))
               = CMTimeAdd exact_CoreMedia (presentationTimeStamp b) (duration b)
           \<and> sequenceNumber b = m_sequence after_one
           \<and> m_sequence (fst (sendFrame exact_CoreMedia (host_at 5 True)
                                 (m_currentFrame after_one) after_one))
               = m_sequence after_one + 1)"
proof -
  have h1: "fullness (m_queue after_one) < 1"
    by code_simp
  have h2: "CMTimeCompare exact_CoreMedia (candidate_pts exact_CoreMedia (host_at 5 True))
       (m_pts after_one) \<noteq> 0"
    by code_simp
  have h3: "pixelBufferCreated (host_at 5 True)"
    by code_simp
  from h1 h2 h3
    successful_tick_stores_next_pts [OF h1 h2 h3, of "m_currentFrame after_one"]
  show ?thesis
    by blast
qed

subsection \<open>Runs: the order of the entries\<close>

lemma enqueued_append: "enqueued (fx @ gx) = enqueued fx @ enqueued gx"
  by (induction fx rule: enqueued.induct) simp_all

lemma streamLoop_sequence:
  "(enqueued (snd (streamLoop cm h st)) = []
      \<and> m_sequence (fst (streamLoop cm h st)) = m_sequence st)
   \<or> (\<exists>b. enqueued (snd (streamLoop cm h st)) = [b]
         \<and> sequenceNumber b = m_sequence st
         \<and> m_sequence (fst (streamLoop cm h st)) = m_sequence st + 1)"
  by (simp add: streamLoop_def sendFrame_def Let_def sample_for_def split: option.split)

lemma streamLoop_pts:
  assumes "pixelBufferCreated h"
  shows "(enqueued (snd (streamLoop cm h st)) = []
      \<and> m_pts (fst (streamLoop cm h st)) = m_pts st)
   \<or> (\<exists>b. enqueued (snd (streamLoop cm h st)) = [b]
         \<and> (discontinuityFlags b = kCMIOSampleBufferDiscontinuityFlag_UnknownDiscontinuity
            \<or> presentationTimeStamp b = m_pts st)
         \<and> m_pts (fst (streamLoop cm h st))
             = CMTimeAdd cm (presentationTimeStamp b) (duration b))"
  using assms
  by (simp add: streamLoop_def sendFrame_def Let_def sample_for_def frame_duration_def
      split: option.split)

lemma run_numbered:
  "numbered (m_sequence st) (enqueued (snd (run cm fs st)))"
proof (induction fs arbitrary: st)
  case Nil
  show ?case by simp
next
  case (Cons f fs)
  let ?st' = "st\<lparr>m_queue := dequeue (consumed f) (m_queue st)\<rparr>"
  obtain st1 fx1 where s1: "streamLoop cm (answers f) ?st' = (st1, fx1)"
    by (cases "streamLoop cm (answers f) ?st'")
  obtain st2 fx2 where s2: "run cm fs st1 = (st2, fx2)"
    by (cases "run cm fs st1")
  have ih: "numbered (m_sequence st1) (enqueued fx2)"
    using Cons.IH [of st1] s2 by simp
  have r: "enqueued (snd (run cm (f # fs) st)) = enqueued fx1 @ enqueued fx2"
    using s1 s2 by (simp add: enqueued_append)
  from streamLoop_sequence [of cm "answers f" ?st'] s1
  have "(enqueued fx1 = [] \<and> m_sequence st1 = m_sequence st)
      \<or> (\<exists>b. enqueued fx1 = [b] \<and> sequenceNumber b = m_sequence st
             \<and> m_sequence st1 = m_sequence st + 1)"
    by simp
  then show ?case
    using ih r by auto
qed

lemma numbered_nth:
  "numbered s bs \<Longrightarrow> i < length bs \<Longrightarrow> sequenceNumber (bs ! i) = s + of_nat i"
proof (induction bs arbitrary: s i)
  case Nil
  then show ?case by simp
next
  case (Cons b bs)
  show ?case
  proof (cases i)
    case 0
    with Cons.prems show ?thesis by simp
  next
    case (Suc k)
    with Cons.prems have "sequenceNumber (bs ! k) = (s + 1) + of_nat k"
      using Cons.IH [of "s + 1" k] by simp
    with Suc show ?thesis by (simp add: add.assoc add.commute)
  qed
qed

lemma run_chained:
  assumes "\<forall>f \<in> set fs. pixelBufferCreated (answers f)"
  shows "chained cm (m_pts st) (enqueued (snd (run cm fs st)))"
  using assms
proof (induction fs arbitrary: st)
  case Nil
  show ?case by simp
next
  case (Cons f fs)
  let ?st' = "st\<lparr>m_queue := dequeue (consumed f) (m_queue st)\<rparr>"
  obtain st1 fx1 where s1: "streamLoop cm (answers f) ?st' = (st1, fx1)"
    by (cases "streamLoop cm (answers f) ?st'")
  obtain st2 fx2 where s2: "run cm fs st1 = (st2, fx2)"
    by (cases "run cm fs st1")
  have ih: "chained cm (m_pts st1) (enqueued fx2)"
    using Cons.IH [of st1] Cons.prems s2 by simp
  have r: "enqueued (snd (run cm (f # fs) st)) = enqueued fx1 @ enqueued fx2"
    using s1 s2 by (simp add: enqueued_append)
  have "pixelBufferCreated (answers f)"
    using Cons.prems by simp
  from streamLoop_pts [OF this, of cm ?st'] s1
  have "(enqueued fx1 = [] \<and> m_pts st1 = m_pts st)
      \<or> (\<exists>b. enqueued fx1 = [b]
            \<and> (discontinuityFlags b = kCMIOSampleBufferDiscontinuityFlag_UnknownDiscontinuity
               \<or> presentationTimeStamp b = m_pts st)
            \<and> m_pts st1 = CMTimeAdd cm (presentationTimeStamp b) (duration b))"
    by simp
  then show ?case
    using ih r by auto
qed

text \<open>
  C4, as the claim states it, fails. Four firings of the example stream at 10 frames per
  second, two in the second 5 and two in the second 6 of the host clock, enqueue entries
  with the pts 5/10^9 s, 100000005/10^9 s, 200000005/10^9 s and 6/10^9 s: at the fourth
  firing the stored pts is more than 2/10 s ahead of the candidate, the tick resyncs, and
  the pts goes back.
\<close>

theorem pts_order_counterexample:
  "map presentationTimeStamp (enqueued (snd (run exact_CoreMedia example_firings example_stream)))
     = [\<lparr>timevalue = 5, timescale = 1000000000, timeflags = 1, epoch = 0\<rparr>,
        \<lparr>timevalue = 100000005, timescale = 1000000000, timeflags = 1, epoch = 0\<rparr>,
        \<lparr>timevalue = 200000005, timescale = 1000000000, timeflags = 1, epoch = 0\<rparr>,
        \<lparr>timevalue = 6, timescale = 1000000000, timeflags = 1, epoch = 0\<rparr>]
   \<and> seconds (presentationTimeStamp
        (enqueued (snd (run exact_CoreMedia example_firings example_stream)) ! 3))
       < seconds (presentationTimeStamp
        (enqueued (snd (run exact_CoreMedia example_firings example_stream)) ! 2))
   \<and> \<not> sorted (map (seconds \<circ> presentationTimeStamp)
          (enqueued (snd (run exact_CoreMedia example_firings example_stream))))"
  by code_simp

text \<open>
  C4, amended. Over every run of a stream whose sequence counter starts at 0 (as
  \<^verbatim>\<open>start\<close> leaves it) and that enqueues at most 2^64 entries, the entry at position
  \<^verbatim>\<open>i\<close> carries the sequence number \<^verbatim>\<open>i\<close>: the entries are strictly ordered by
  sequence number, without gap. Their pts values are not ordered: when no pixel buffer
  allocation fails in the run, every entry either is marked as a discontinuity (its pts is
  then the candidate of its tick, which may be lower than or equal to an earlier pts) or
  carries the pts of the entry before it plus that entry's duration (the first entry of
  the run: the pts stored when the run begins).
\<close>

theorem run_order:
  assumes "m_sequence st = 0"
      and "length (enqueued (snd (run cm fs st))) \<le> 2 ^ 64"
  shows "(\<forall>i < length (enqueued (snd (run cm fs st))).
            unat (sequenceNumber (enqueued (snd (run cm fs st)) ! i)) = i)
       \<and> sorted_wrt (<) (map sequenceNumber (enqueued (snd (run cm fs st))))
       \<and> ((\<forall>f \<in> set fs. pixelBufferCreated (answers f))
            \<longrightarrow> chained cm (m_pts st) (enqueued (snd (run cm fs st))))"
proof -
  let ?es = "enqueued (snd (run cm fs st))"
  have nth: "unat (sequenceNumber (?es ! i)) = i" if "i < length ?es" for i
  proof -
    have "sequenceNumber (?es ! i) = of_nat i"
      using numbered_nth [OF run_numbered [of st cm fs] that] assms(1) by simp
    moreover have "i < 2 ^ 64"
      using that assms(2) by simp
    ultimately show ?thesis
      by (simp add: unat_of_nat)
  qed
  have "sorted_wrt (<) (map sequenceNumber ?es)"
    unfolding sorted_wrt_iff_nth_less
    by (auto simp add: word_less_nat_alt nth)
  with nth run_chained [of fs cm st] show ?thesis
    by blast
qed

theorem run_order_witness:
  "m_sequence example_stream = 0
   \<and> length (enqueued (snd (run exact_CoreMedia example_firings example_stream))) = 4
   \<and> length (enqueued (snd (run exact_CoreMedia example_firings example_stream))) \<le> 2 ^ 64
   \<and> unat (sequenceNumber
        (enqueued (snd (run exact_CoreMedia example_firings example_stream)) ! 3)) = 3
   \<and> sorted_wrt (<)
        (map sequenceNumber (enqueued (snd (run exact_CoreMedia example_firings example_stream))))
   \<and> chained exact_CoreMedia (m_pts example_stream)
        (enqueued (snd (run exact_CoreMedia example_firings example_stream)))"
proof -
  let ?es = "enqueued (snd (run exact_CoreMedia example_firings example_stream))"
  have h1: "m_sequence example_stream = 0"
    by code_simp
  have n: "length ?es = 4"
    by code_simp
  have h2: "length ?es \<le> 2 ^ 64"
    unfolding n by simp
  have a: "\<forall>f \<in> set example_firings. pixelBufferCreated (answers f)"
    by (simp add: example_firings_def firing_at_def host_at_def)
  have i: "3 < length ?es"
    unfolding n by simp
  from run_order [OF h1 h2] a i
  have "unat (sequenceNumber (?es ! 3)) = 3
      \<and> sorted_wrt (<) (map sequenceNumber ?es)
      \<and> chained exact_CoreMedia (m_pts example_stream) ?es"
    by blast
  with h1 n h2 show ?thesis
    by blast
qed

subsection \<open>Ticks that send nothing\<close>

text \<open>
  C5, as the claim states it, fails. The code compares the candidate with the stored pts,
  and after a tick that enqueued an entry the stored pts is not the pts of that entry: it
  is that pts plus the entry's duration, the pts of the next entry. After the first firing
  of the example the last entry carries the pts 5/10^9 s and the stored pts is
  100000005/10^9 s. A second tick in the same second has the candidate 5/10^9 s, which
  equals the last pts sent exactly; it is not skipped: it enqueues a second entry with the
  pts 100000005/10^9 s, calls the callback, and the sequence counter goes from 1 to 2 and
  the stored pts to 200000005/10^9 s.
\<close>

theorem same_pts_tick_counterexample:
  "map presentationTimeStamp (items (m_queue after_one))
     = [\<lparr>timevalue = 5, timescale = 1000000000, timeflags = 1, epoch = 0\<rparr>]
   \<and> candidate_pts exact_CoreMedia (host_at 5 True)
       = \<lparr>timevalue = 5, timescale = 1000000000, timeflags = 1, epoch = 0\<rparr>
   \<and> CMTimeCompare exact_CoreMedia (candidate_pts exact_CoreMedia (host_at 5 True))
        (presentationTimeStamp (last (items (m_queue after_one)))) = 0
   \<and> m_sequence after_one = 1
   \<and> m_pts after_one
       = \<lparr>timevalue = 100000005, timescale = 1000000000, timeflags = 1, epoch = 0\<rparr>
   \<and> map presentationTimeStamp
        (enqueued (snd (sendFrame exact_CoreMedia (host_at 5 True)
                          (m_currentFrame after_one) after_one)))
       = [\<lparr>timevalue = 100000005, timescale = 1000000000, timeflags = 1, epoch = 0\<rparr>]
   \<and> length (notified (snd (sendFrame exact_CoreMedia (host_at 5 True)
                                 (m_currentFrame after_one) after_one))) = 1
   \<and> m_sequence (fst (sendFrame exact_CoreMedia (host_at 5 True)
                          (m_currentFrame after_one) after_one)) = 2
   \<and> m_pts (fst (sendFrame exact_CoreMedia (host_at 5 True)
                     (m_currentFrame after_one) after_one))
       = \<lparr>timevalue = 200000005, timescale = 1000000000, timeflags = 1, epoch = 0\<rparr>"
  by code_simp

text \<open>
  C5, amended. A tick whose candidate pts compares equal to the stored pts
  (\<^verbatim>\<open>CMTimeCompare(pts, m_pts) == 0\<close>) enqueues nothing, calls no callback and leaves
  the whole state as it was, the sequence counter and the stored pts included: however
  often it is repeated, nothing changes. The stored pts is the member \<^verbatim>\<open>m_pts\<close>:
  after a tick that enqueued an entry it is the pts of that entry plus the duration the
  entry carries, the pts of the next entry and not the pts of the last one.
\<close>

theorem duplicate_pts_tick_skipped:
  assumes "CMTimeCompare cm (candidate_pts cm h) (m_pts st) = 0"
  shows "fst (sendFrame cm h frame st) = st
       \<and> m_sequence (fst (sendFrame cm h frame st)) = m_sequence st
       \<and> m_pts (fst (sendFrame cm h frame st)) = m_pts st
       \<and> enqueued (snd (sendFrame cm h frame st)) = []
       \<and> notified (snd (sendFrame cm h frame st)) = []"
  using assms by (simp add: sendFrame_def Let_def)

text \<open>
  The theorem on two states. After the first firing of the example, which enqueued an
  entry, the stored pts is 100000005/10^9 s, and a tick at the host time 100000005 s has
  this candidate: it is skipped. And after a first tick that resynced and then could not
  create its pixel buffer the stored pts is the candidate of the second 5, and a second
  tick in the same second is skipped.
\<close>

theorem duplicate_pts_tick_skipped_witness:
  "length (items (m_queue after_one)) = 1
   \<and> CMTimeCompare exact_CoreMedia (candidate_pts exact_CoreMedia (host_at 100000005 True))
       (m_pts after_one) = 0
   \<and> fst (sendFrame exact_CoreMedia (host_at 100000005 True) (m_currentFrame after_one)
            after_one)
       = after_one
   \<and> enqueued (snd (sendFrame exact_CoreMedia (host_at 100000005 True)
                      (m_currentFrame after_one) after_one)) = []
   \<and> notified (snd (sendFrame exact_CoreMedia (host_at 100000005 True)
                      (m_currentFrame after_one) after_one)) = []
   \<and> CMTimeCompare exact_CoreMedia (candidate_pts exact_CoreMedia (host_at 5 True))
       (m_pts after_failed_allocation) = 0
   \<and> fst (sendFrame exact_CoreMedia (host_at 5 True) (m_currentFrame example_stream)
            after_failed_allocation)
       = after_failed_allocation
   \<and> enqueued (snd (sendFrame exact_CoreMedia (host_at 5 True) (m_currentFrame example_stream)
                      after_failed_allocation)) = []
   \<and> notified (snd (sendFrame exact_CoreMedia (host_at 5 True) (m_currentFrame example_stream)
                      after_failed_allocation)) = []"
proof -
  have n: "length (items (m_queue after_one)) = 1"
    by code_simp
  have g: "CMTimeCompare exact_CoreMedia
       (candidate_pts exact_CoreMedia (host_at 100000005 True)) (m_pts after_one) = 0"
    by code_simp
  have h: "CMTimeCompare exact_CoreMedia (candidate_pts exact_CoreMedia (host_at 5 True))
     (m_pts after_failed_allocation) = 0"
    by code_simp
  from n g h
    duplicate_pts_tick_skipped [OF g, of "m_currentFrame after_one"]
    duplicate_pts_tick_skipped [OF h, of "m_currentFrame example_stream"]
  show ?thesis
    by blast
qed

text \<open>
  C6. A tick that finds the queue full (fullness at least 1) returns at once. It makes no
  call at all: it does not read the host time, posts no timing event, creates no pixel
  buffer, enqueues nothing and calls no callback; and the whole state, with the sequence
  counter, the stored pts and the queue, is as it was. The test of the fullness is the
  first statement of \<^verbatim>\<open>sendFrame\<close>.
\<close>

theorem sendFrame_queue_full:
  assumes "1 \<le> fullness (m_queue st)"
  shows "sendFrame cm h frame st = (st, [])"
  using assms by (simp add: sendFrame_def)

text \<open>
  The theorem after 30 firings of the example stream, one every tenth of a second, with a
  consumer that takes nothing: the queue of capacity 30 is full.
\<close>

theorem sendFrame_queue_full_witness:
  "length (items (m_queue stalled_stream)) = 30
   \<and> 1 \<le> fullness (m_queue stalled_stream)
   \<and> sendFrame exact_CoreMedia (host_at 9 True) (m_currentFrame stalled_stream) stalled_stream
       = (stalled_stream, [])"
proof -
  have n: "length (items (m_queue stalled_stream)) = 30"
    by code_simp
  have h: "1 \<le> fullness (m_queue stalled_stream)"
    by code_simp
  from n h sendFrame_queue_full [OF h, of exact_CoreMedia "host_at 9 True"
      "m_currentFrame stalled_stream"]
  show ?thesis
    by blast
qed

text \<open>
  C7, as the claim states it, fails. The first tick of the example stream finds the stored
  pts invalid and resyncs; when the pixel buffer cannot be created it returns after it has
  stored the candidate pts and posted the timing event to the clock. The stored pts is not
  what it was before the tick.
\<close>

theorem allocation_failure_counterexample:
  "m_pts example_stream = \<lparr>timevalue = 0, timescale = 0, timeflags = 0, epoch = 0\<rparr>
   \<and> m_pts (fst (sendFrame exact_CoreMedia (host_at 5 False) (m_currentFrame example_stream)
                    example_stream))
       = \<lparr>timevalue = 5, timescale = 1000000000, timeflags = 1, epoch = 0\<rparr>
   \<and> snd (sendFrame exact_CoreMedia (host_at 5 False) (m_currentFrame example_stream)
             example_stream)
       = [AbsoluteTimeGetCurrent,
          ClockPostTimingEvent
            \<lparr>timevalue = 5, timescale = 1000000000, timeflags = 1, epoch = 0\<rparr> 5 True,
          PixelBufferCreate 2 1 1]
   \<and> fst (sendFrame exact_CoreMedia (host_at 5 False) (m_currentFrame example_stream)
            example_stream) \<noteq> example_stream"
  by code_simp

text \<open>
  C7, amended. A tick in which the pixel buffer cannot be created (so the queue had room
  and the candidate did not compare equal to the stored pts) enqueues nothing, calls no
  callback, and leaves the sequence counter, the queue and every other member but the
  stored pts as they were. The timing event has been posted to the clock before the
  allocation, and on a drift tick the stored pts has been replaced by the candidate; on a
  steady tick the stored pts is unchanged too.
\<close>

theorem allocation_failure_tick:
  assumes "fullness (m_queue st) < 1"
      and "CMTimeCompare cm (candidate_pts cm h) (m_pts st) \<noteq> 0"
      and "\<not> pixelBufferCreated h"
  shows "enqueued (snd (sendFrame cm h frame st)) = []
       \<and> notified (snd (sendFrame cm h frame st)) = []
       \<and> m_sequence (fst (sendFrame cm h frame st)) = m_sequence st
       \<and> m_queue (fst (sendFrame cm h frame st)) = m_queue st
       \<and> fst (sendFrame cm h frame st)
           = (if resync_needed cm h st then st\<lparr>m_pts := candidate_pts cm h\<rparr> else st)
       \<and> ClockPostTimingEvent (if resync_needed cm h st then candidate_pts cm h else m_pts st)
             (UInt64 (absoluteTime h)) (resync_needed cm h st)
           \<in> set (snd (sendFrame cm h frame st))"
  using assms by (simp add: sendFrame_allocation_failed Let_def)

text \<open>
  The theorem at a steady tick: the second firing of the example, with no pixel buffer.
\<close>

theorem allocation_failure_tick_witness:
  "fullness (m_queue after_one) < 1
   \<and> CMTimeCompare exact_CoreMedia (candidate_pts exact_CoreMedia (host_at 5 False))
       (m_pts after_one) \<noteq> 0
   \<and> \<not> pixelBufferCreated (host_at 5 False)
   \<and> \<not> resync_needed exact_CoreMedia (host_at 5 False) after_one
   \<and> enqueued (snd (sendFrame exact_CoreMedia (host_at 5 False) (m_currentFrame after_one)
                      after_one)) = []
   \<and> notified (snd (sendFrame exact_CoreMedia (host_at 5 False) (m_currentFrame after_one)
                      after_one)) = []
   \<and> fst (sendFrame exact_CoreMedia (host_at 5 False) (m_currentFrame after_one) after_one)
       = after_one"
proof -
  have h1: "fullness (m_queue after_one) < 1"
    by code_simp
  have h2: "CMTimeCompare exact_CoreMedia (candidate_pts exact_CoreMedia (host_at 5 False))
       (m_pts after_one) \<noteq> 0"
    by code_simp
  have h3: "\<not> pixelBufferCreated (host_at 5 False)"
    by code_simp
  have h4: "\<not> resync_needed exact_CoreMedia (host_at 5 False) after_one"
    by code_simp
  from h1 h2 h3 h4 allocation_failure_tick [OF h1 h2 h3, of "m_currentFrame after_one"]
  show ?thesis
    by simp
qed

subsection \<open>The current frame\<close>

text \<open>
  C8. \<^verbatim>\<open>frameReady\<close> changes nothing while the stream is stopped. While it runs with
  broadcasting enabled, the current frame becomes the submitted frame, mirrored first
  (horizontal and vertical flag), then scaled to the width and height of the active format
  with the configured scaling mode and aspect ratio policy, then converted to the fourcc of
  the active format; nothing else changes. While it runs with broadcasting disabled,
  nothing changes.
\<close>

theorem frameReady_slot:
  "(\<not> m_running st \<longrightarrow> frameReady ops frame st = st)
 \<and> (m_running st \<and> m_broadcasting st \<longrightarrow>
      frameReady ops frame st =
        st\<lparr>m_currentFrame :=
             convert ops (fourcc (m_format st))
               (scaled ops (width (m_format st)) (height (m_format st))
                  (m_scaling st) (m_aspectRatio st)
                  (mirror ops (m_horizontalMirror st) (m_verticalMirror st) frame))\<rparr>)
 \<and> (m_running st \<and> \<not> m_broadcasting st \<longrightarrow> frameReady ops frame st = st)"
  by (simp add: frameReady_def adapt_def)

text \<open>
  The theorem on the three kinds of stream: the configured stream before its start, the
  started stream with broadcasting enabled, the started stream as it is.
\<close>

theorem frameReady_slot_witness:
  "\<not> m_running configured_stream
   \<and> frameReady example_ops example_testFrame configured_stream = configured_stream
   \<and> m_running broadcasting_stream \<and> m_broadcasting broadcasting_stream
   \<and> frameReady example_ops example_testFrame broadcasting_stream =
        broadcasting_stream\<lparr>m_currentFrame :=
             convert example_ops (fourcc (m_format broadcasting_stream))
               (scaled example_ops (width (m_format broadcasting_stream))
                  (height (m_format broadcasting_stream))
                  (m_scaling broadcasting_stream) (m_aspectRatio broadcasting_stream)
                  (mirror example_ops (m_horizontalMirror broadcasting_stream)
                     (m_verticalMirror broadcasting_stream) example_testFrame))\<rparr>
   \<and> m_running example_stream \<and> \<not> m_broadcasting example_stream
   \<and> frameReady example_ops example_testFrame example_stream = example_stream"
proof -
  have h1: "\<not> m_running configured_stream"
    by code_simp
  have h2: "m_running broadcasting_stream" and h3: "m_broadcasting broadcasting_stream"
    by code_simp+
  have h4: "m_running example_stream" and h5: "\<not> m_broadcasting example_stream"
    by code_simp+
  from h1 h2 h3 h4 h5
    frameReady_slot [of configured_stream example_ops example_testFrame]
    frameReady_slot [of broadcasting_stream example_ops example_testFrame]
    frameReady_slot [of example_stream example_ops example_testFrame]
  show ?thesis
    by blast
qed

subsection \<open>The adapted test frame\<close>

text \<open>
  C9, as the claim states it, fails, in two ways. A setter that is given the value the
  setting already has returns before \<^verbatim>\<open>updateTestFrame\<close>: on the configured stream,
  which was never started, \<^verbatim>\<open>setScaling(ScalingFast)\<close> changes nothing and the adapted
  test frame stays the empty frame of the construction. And \<^verbatim>\<open>setFormat\<close> has no call
  of \<^verbatim>\<open>updateTestFrame\<close>: on the started example stream, whose adapted test frame is
  2x1, setting a 4x2 format leaves the adapted test frame 2x1. In both cases the adapted
  test frame is not what adapting the test frame to the current settings gives.
\<close>

theorem test_frame_cache_counterexample:
  "setScaling example_ops ScalingFast configured_stream = configured_stream
   \<and> data (m_testFrameAdapted (setScaling example_ops ScalingFast configured_stream)) = []
   \<and> m_testFrameAdapted (setScaling example_ops ScalingFast configured_stream)
       \<noteq> adapt example_ops (setScaling example_ops ScalingFast configured_stream)
            (m_testFrame (setScaling example_ops ScalingFast configured_stream))
   \<and> m_testFrameAdapted (setFormat other_format example_stream)
       = m_testFrameAdapted example_stream
   \<and> width (format (m_testFrameAdapted (setFormat other_format example_stream))) = 2
   \<and> width (m_format (setFormat other_format example_stream)) = 4
   \<and> m_testFrameAdapted (setFormat other_format example_stream)
       \<noteq> adapt example_ops (setFormat other_format example_stream)
            (m_testFrame (setFormat other_format example_stream))"
  by code_simp

text \<open>
  C9, amended. \<^verbatim>\<open>setMirror\<close>, \<^verbatim>\<open>setScaling\<close> and \<^verbatim>\<open>setAspectRatio\<close>, when the
  call changes the setting, store it and recompute the adapted test frame within the call:
  it is then the test frame mirrored, scaled and converted under the new mirror, scaling
  and aspect settings and the current format. When the call gives the value the setting
  already has, they return at once and change nothing, the adapted test frame included.
\<close>

theorem setters_and_test_frame:
  "(m_horizontalMirror st \<noteq> h \<or> m_verticalMirror st \<noteq> v \<longrightarrow>
      m_horizontalMirror (setMirror ops h v st) = h
    \<and> m_verticalMirror (setMirror ops h v st) = v
    \<and> m_testFrameAdapted (setMirror ops h v st)
        = adapt ops (setMirror ops h v st) (m_testFrame (setMirror ops h v st)))
 \<and> (m_scaling st \<noteq> s \<longrightarrow>
      m_scaling (setScaling ops s st) = s
    \<and> m_testFrameAdapted (setScaling ops s st)
        = adapt ops (setScaling ops s st) (m_testFrame (setScaling ops s st)))
 \<and> (m_aspectRatio st \<noteq> a \<longrightarrow>
      m_aspectRatio (setAspectRatio ops a st) = a
    \<and> m_testFrameAdapted (setAspectRatio ops a st)
        = adapt ops (setAspectRatio ops a st) (m_testFrame (setAspectRatio ops a st)))
 \<and> (m_horizontalMirror st = h \<and> m_verticalMirror st = v \<longrightarrow> setMirror ops h v st = st)
 \<and> (m_scaling st = s \<longrightarrow> setScaling ops s st = st)
 \<and> (m_aspectRatio st = a \<longrightarrow> setAspectRatio ops a st = st)"
  by (auto simp add: setMirror_def setScaling_def setAspectRatio_def updateTestFrame_def
      adapt_def)

text \<open>
  The theorem on the configured stream: with settings that all differ from the ones it
  has, and with the settings it has.
\<close>

theorem setters_and_test_frame_witness:
  "m_horizontalMirror configured_stream \<noteq> True
   \<and> m_scaling configured_stream \<noteq> ScalingLinear
   \<and> m_aspectRatio configured_stream \<noteq> AspectRatioKeep
   \<and> m_testFrameAdapted (setMirror example_ops True False configured_stream)
       = adapt example_ops (setMirror example_ops True False configured_stream)
           (m_testFrame (setMirror example_ops True False configured_stream))
   \<and> m_testFrameAdapted (setScaling example_ops ScalingLinear configured_stream)
       = adapt example_ops (setScaling example_ops ScalingLinear configured_stream)
           (m_testFrame (setScaling example_ops ScalingLinear configured_stream))
   \<and> m_testFrameAdapted (setAspectRatio example_ops AspectRatioKeep configured_stream)
       = adapt example_ops (setAspectRatio example_ops AspectRatioKeep configured_stream)
           (m_testFrame (setAspectRatio example_ops AspectRatioKeep configured_stream))
   \<and> m_horizontalMirror configured_stream = False
   \<and> m_verticalMirror configured_stream = False
   \<and> m_scaling configured_stream = ScalingFast
   \<and> m_aspectRatio configured_stream = AspectRatioIgnore
   \<and> setMirror example_ops False False configured_stream = configured_stream
   \<and> setScaling example_ops ScalingFast configured_stream = configured_stream
   \<and> setAspectRatio example_ops AspectRatioIgnore configured_stream = configured_stream"
proof -
  have h1: "m_horizontalMirror configured_stream \<noteq> True"
    by code_simp
  have h2: "m_scaling configured_stream \<noteq> ScalingLinear"
    by code_simp
  have h3: "m_aspectRatio configured_stream \<noteq> AspectRatioKeep"
    by code_simp
  have k1: "m_horizontalMirror configured_stream = False"
    and k2: "m_verticalMirror configured_stream = False"
    and k3: "m_scaling configured_stream = ScalingFast"
    and k4: "m_aspectRatio configured_stream = AspectRatioIgnore"
    by code_simp+
  from h1 h2 h3 k1 k2 k3 k4
    setters_and_test_frame [of configured_stream True False example_ops ScalingLinear
      AspectRatioKeep]
    setters_and_test_frame [of configured_stream False False example_ops ScalingFast
      AspectRatioIgnore]
  show ?thesis
    by blast
qed

subsection \<open>The interval of the timer\<close>

text \<open>
  C10. \<^verbatim>\<open>start\<close> on a stopped stream without timer and with a frame rate other than
  zero, when the timer can be created, installs a timer whose interval is 1/fps for the
  frame rate stored at that moment. \<^verbatim>\<open>setFrameRate\<close> stores the new frame rate and
  changes neither the timer nor the running flag, and a tick does not change the timer
  either; the next tick takes the frame duration \<^verbatim>\<open>CMTimeMake(1, m_fps)\<close> and the drift
  threshold 2/fps from the new frame rate. Only after \<^verbatim>\<open>stop\<close> and a new
  \<^verbatim>\<open>start\<close> the interval is 1 over the new frame rate.
\<close>

theorem timer_interval_fixed_at_start:
  "(\<not> m_running st0 \<and> m_timer st0 = None \<and> m_fps st0 \<noteq> 0 \<longrightarrow>
      m_running (fst (start ops True st0))
    \<and> m_timer (fst (start ops True st0)) = Some (1 / m_fps st0))
 \<and> m_fps (setFrameRate r st) = r
 \<and> m_timer (setFrameRate r st) = m_timer st
 \<and> m_running (setFrameRate r st) = m_running st
 \<and> m_timer (fst (streamLoop cm h st)) = m_timer st
 \<and> (\<forall>b \<in> set (enqueued (snd (streamLoop cm h (setFrameRate r st)))).
       duration b = CMTimeMake cm 1 (truncate_double r)
     \<and> (discontinuityFlags b = kCMIOSampleBufferDiscontinuityFlag_UnknownDiscontinuity
          \<longleftrightarrow> (CMTIME_IS_INVALID (m_pts st)
               \<or> pts_diff cm h st < 0
               \<or> (r \<noteq> 0 \<and> 2 / r < pts_diff cm h st))))
 \<and> (m_running st \<and> r \<noteq> 0 \<longrightarrow>
      m_timer (fst (start ops True (stop ops (setFrameRate r st)))) = Some (1 / r))"
proof -
  have a: "\<not> m_running st0 \<and> m_timer st0 = None \<and> m_fps st0 \<noteq> 0 \<longrightarrow>
      m_running (fst (start ops True st0))
    \<and> m_timer (fst (start ops True st0)) = Some (1 / m_fps st0)"
    by (simp add: start_def startTimer_def updateTestFrame_def timer_interval_def Let_def)
  have b: "m_fps (setFrameRate r st) = r" "m_timer (setFrameRate r st) = m_timer st"
    "m_running (setFrameRate r st) = m_running st"
    by (simp_all add: setFrameRate_def)
  have c: "m_timer (fst (streamLoop cm h st)) = m_timer st"
    by (simp add: streamLoop_def sendFrame_def Let_def split: option.split)
  have d: "\<forall>b \<in> set (enqueued (snd (streamLoop cm h (setFrameRate r st)))).
       duration b = CMTimeMake cm 1 (truncate_double r)
     \<and> (discontinuityFlags b = kCMIOSampleBufferDiscontinuityFlag_UnknownDiscontinuity
          \<longleftrightarrow> (CMTIME_IS_INVALID (m_pts st)
               \<or> pts_diff cm h st < 0
               \<or> (r \<noteq> 0 \<and> 2 / r < pts_diff cm h st)))"
    by (simp add: streamLoop_def sendFrame_def Let_def setFrameRate_def sample_for_def
        frame_duration_def resync_needed_def exceeds_two_frames_def pts_diff_def
        kCMIOSampleBufferDiscontinuityFlag_UnknownDiscontinuity_def
        kCMIOSampleBufferNoDiscontinuities_def
        split: option.split)
  have e: "m_running st \<and> r \<noteq> 0 \<longrightarrow>
      m_timer (fst (start ops True (stop ops (setFrameRate r st)))) = Some (1 / r)"
    by (simp add: start_def stop_def stopTimer_def startTimer_def updateTestFrame_def
        setFrameRate_def timer_interval_def Let_def)
  from a b c d e show ?thesis
    by blast
qed

text \<open>
  The theorem on the example: the stream is started at 10 frames per second, the frame rate
  is set to 30 while it runs, and the interval stays 1/10 s; the entry of the next tick
  has the duration 1/30 s.
\<close>

theorem timer_interval_fixed_at_start_witness:
  "\<not> m_running configured_stream \<and> m_timer configured_stream = None
   \<and> m_fps configured_stream \<noteq> 0
   \<and> m_running example_stream
   \<and> m_timer (fst (start example_ops True configured_stream)) = Some (1 / 10)
   \<and> m_fps (setFrameRate 30 example_stream) = 30
   \<and> m_timer (setFrameRate 30 example_stream) = Some (1 / 10)
   \<and> duration (hd (enqueued (snd (streamLoop exact_CoreMedia (host_at 5 True)
                                     (setFrameRate 30 example_stream)))))
       = CMTimeMake exact_CoreMedia 1 (truncate_double 30)
   \<and> m_timer (fst (start example_ops True
                      (stop example_ops (setFrameRate 30 example_stream)))) = Some (1 / 30)"
proof -
  let ?es = "enqueued (snd (streamLoop exact_CoreMedia (host_at 5 True)
                                     (setFrameRate 30 example_stream)))"
  have h1: "\<not> m_running configured_stream" and h2: "m_timer configured_stream = None"
    and h3: "m_fps configured_stream \<noteq> 0" and f: "m_fps configured_stream = 10"
    by code_simp+
  have h4: "m_running example_stream" and t: "m_timer example_stream = Some (1 / 10)"
    by code_simp+
  have m: "hd ?es \<in> set ?es"
    by code_simp
  have r: "(30::rat) \<noteq> 0"
    by simp
  note inst = timer_interval_fixed_at_start [of configured_stream example_ops 30 example_stream
      exact_CoreMedia "host_at 5 True"]
  from inst h1 h2 h3 have "m_timer (fst (start example_ops True configured_stream))
      = Some (1 / m_fps configured_stream)"
    by blast
  then have a: "m_timer (fst (start example_ops True configured_stream)) = Some (1 / 10)"
    unfolding f .
  from inst have b: "m_fps (setFrameRate 30 example_stream) = 30"
    by blast
  from inst have "m_timer (setFrameRate 30 example_stream) = m_timer example_stream"
    by blast
  then have c: "m_timer (setFrameRate 30 example_stream) = Some (1 / 10)"
    unfolding t .
  from inst m have d: "duration (hd ?es) = CMTimeMake exact_CoreMedia 1 (truncate_double 30)"
    by blast
  from inst h4 r have e: "m_timer (fst (start example_ops True
                      (stop example_ops (setFrameRate 30 example_stream)))) = Some (1 / 30)"
    by blast
  from h1 h2 h3 h4 a b c d e show ?thesis
    by blast
qed

end
